theory Spec2Isabelle
  imports Complex_Main
begin

section \<open>The design studio of TeeDesign Studio: data model\<close>

text \<open>
  The component \<open>DesignCanvas\<close> (src/unnamed/part_000) keeps its state in React
  \<open>useState\<close> cells and changes it in event handlers. The embedding makes the state a
  record and every handler a function from the state (and from what the handler reads
  from outside: the clock, the signed-in user, the answer of the server) to the next
  state and to the trace of what the handler did to the outside (toasts, requests).

  JavaScript values are modelled as follows.
  \<^item> The numbers the state holds (the quantity, the coordinates and sizes of the
    elements, the font size) are the reals they stand for: \<open>number\<close>.
  \<^item> The prices are IEEE doubles, computed by \<open>parseFloat\<close>, \<open>+\<close>, \<open>*\<close> and \<open>toFixed\<close>.
    Their type is a type variable and these operations are parameters (the record
    \<open>js_numbers\<close>): nothing is assumed of their rounding, of \<open>NaN\<close> or of the infinities,
    and every theorem holds for whatever the platform computes.
  \<^item> The text the user types is a list of UTF-16 code units (\<open>utf16\<close>), which is what
    \<open>String.prototype.trim\<close> looks at. The other strings (identifiers, names, colours,
    messages) are only stored, compared and concatenated; they are \<open>string\<close>s.
  \<^item> \<open>null\<close> and \<open>undefined\<close> are \<open>None\<close>.
  \<^item> \<open>String.prototype.toUpperCase\<close> is a parameter of the function that calls it.
\<close>

type_synonym number = real

type_synonym utf16 = "nat list"

text \<open>A string of ASCII characters as code units.\<close>

definition utf16_of :: "string \<Rightarrow> utf16" where
  "utf16_of t = map of_char t"

text \<open>\<open>interface Product\<close>, lines 16-25.\<close>

record Product =
  p_id :: string
  p_name :: string
  p_description :: string
  p_basePrice :: string
  p_category :: string
  p_colors :: "string list"
  p_sizes :: "string list"
  p_imageUrl :: "string option"

text \<open>\<open>interface DesignElement\<close>, lines 27-38; \<open>type\<close> is \<open>'text' | 'shape' | 'image'\<close>.\<close>

datatype element_type = Text | Shape | Image

record DesignElement =
  e_id :: string
  e_type :: element_type
  e_content :: utf16
  e_x :: number
  e_y :: number
  e_width :: number
  e_height :: number
  e_color :: string
  e_fontSize :: "number option"
  e_fontFamily :: "string option"

text \<open>
  The state cells of lines 44-56 that the handlers below read or write. (The tool tab
  and the mockup images of lines 47, 57, 58 only choose what is painted behind the
  elements and are left out.) \<open>selectedColor\<close> and \<open>selectedSize\<close> are optional because
  \<open>product.colors[0]\<close> of an empty array is \<open>undefined\<close>.
\<close>

record DesignState =
  products :: "Product list"
  selectedProduct :: "Product option"
  elements :: "DesignElement list"
  selectedColor :: "string option"
  selectedSize :: "string option"
  textInput :: utf16
  textColor :: string
  fontSize :: number
  fontFamily :: string
  quantity :: number
  isLoading :: bool
  savedDesignId :: "string option"

text \<open>The initial values of the \<open>useState\<close> calls.\<close>

definition initialState :: DesignState where
  "initialState =
     \<lparr>products = [], selectedProduct = None, elements = [],
      selectedColor = Some ''white'', selectedSize = Some ''M'',
      textInput = [], textColor = ''#000000'', fontSize = 24, fontFamily = ''Arial'',
      quantity = 1, isLoading = False, savedDesignId = None\<rparr>"

section \<open>Builtins of the platform that the handlers depend on\<close>

text \<open>
  \<open>xs[i]\<close> on a JavaScript array: \<open>undefined\<close> out of range.
\<close>

definition js_index :: "'a list \<Rightarrow> nat \<Rightarrow> 'a option" where
  "js_index xs i = (if i < length xs then Some (xs ! i) else None)"

text \<open>
  \<open>String.prototype.trim\<close> removes the code units of ECMAScript's \<open>WhiteSpace\<close> and
  \<open>LineTerminator\<close> from both ends: TAB, LF, VT, FF, CR, SP, NBSP, U+1680, U+2000 to
  U+200A, U+2028, U+2029, U+202F, U+205F, U+3000 and U+FEFF.
\<close>

definition isWhiteSpace :: "nat \<Rightarrow> bool" where
  "isWhiteSpace u =
     (u \<in> {9, 10, 11, 12, 13, 32, 160, 5760, 8232, 8233, 8239, 8287, 12288, 65279} \<or>
      (8192 \<le> u \<and> u \<le> 8202))"

definition trim :: "utf16 \<Rightarrow> utf16" where
  "trim s = rev (dropWhile isWhiteSpace (rev (dropWhile isWhiteSpace s)))"

text \<open>
  \<open>Date.now().toString()\<close>: the decimal digits of a non-negative integer, most
  significant first, with no leading zero.
\<close>

definition digit :: "nat \<Rightarrow> char" where
  "digit d = ''0123456789'' ! d"

fun toString :: "nat \<Rightarrow> string" where
  "toString n = (if n < 10 then [digit n] else toString (n div 10) @ [digit (n mod 10)])"

declare toString.simps [simp del]

text \<open>
  The truth value of an optional string in a condition: \<open>null\<close>, \<open>undefined\<close> and the
  empty string are falsy.
\<close>

definition truthy :: "string option \<Rightarrow> bool" where
  "truthy v = (case v of None \<Rightarrow> False | Some t \<Rightarrow> t \<noteq> [])"

section \<open>Element operations\<close>

text \<open>
  \<open>addText\<close>, lines 208-226. \<open>now\<close> is what \<open>Date.now()\<close> returns when the handler runs.
\<close>

definition addText :: "nat \<Rightarrow> DesignState \<Rightarrow> DesignState" where
  "addText now s =
     (if trim (textInput s) = [] then s
      else s\<lparr>elements := elements s @
                 [\<lparr>e_id = toString now, e_type = Text, e_content = textInput s,
                   e_x = 160, e_y = 200, e_width = 100, e_height = 30,
                   e_color = textColor s,
                   e_fontSize = Some (fontSize s), e_fontFamily = Some (fontFamily s)\<rparr>],
              textInput := []\<rparr>)"

text \<open>\<open>addShape\<close>, lines 228-241.\<close>

datatype shapeType = rectangle | circle

fun shapeName :: "shapeType \<Rightarrow> utf16" where
  "shapeName rectangle = utf16_of ''rectangle''"
| "shapeName circle = utf16_of ''circle''"

definition addShape :: "shapeType \<Rightarrow> nat \<Rightarrow> DesignState \<Rightarrow> DesignState" where
  "addShape shape now s =
     s\<lparr>elements := elements s @
          [\<lparr>e_id = toString now, e_type = Shape, e_content = shapeName shape,
            e_x = 160, e_y = 200, e_width = 60, e_height = 60,
            e_color = textColor s, e_fontSize = None, e_fontFamily = None\<rparr>]\<rparr>"

section \<open>Selection operations\<close>

text \<open>
  \<open>fetchProducts\<close>, lines 102-117, when the request succeeds with the list \<open>data\<close>.
\<close>

definition fetchProducts :: "Product list \<Rightarrow> DesignState \<Rightarrow> DesignState" where
  "fetchProducts data s =
     (case data of
        [] \<Rightarrow> s\<lparr>products := data\<rparr>
      | p # _ \<Rightarrow>
          s\<lparr>products := data, selectedProduct := Some p,
            selectedColor := js_index (p_colors p) 0,
            selectedSize := js_index (p_sizes p) 0\<rparr>)"

text \<open>
  The \<open>onValueChange\<close> handler of the product \<open>Select\<close>, lines 360-367: \<open>v\<close> is the
  value of the chosen item, a product identifier.
\<close>

definition productSelect_onValueChange :: "string \<Rightarrow> DesignState \<Rightarrow> DesignState" where
  "productSelect_onValueChange v s =
     (case find (\<lambda>p. p_id p = v) (products s) of
        None \<Rightarrow> s
      | Some product \<Rightarrow>
          s\<lparr>selectedProduct := Some product,
            selectedColor := js_index (p_colors product) 0,
            selectedSize := js_index (p_sizes product) 0\<rparr>)"

text \<open>
  The colour \<open>Select\<close> (line 386) and the colour swatches (line 534) call
  \<open>setSelectedColor\<close> with the chosen value; both size \<open>Select\<close>s (lines 401, 611) call
  \<open>setSelectedSize\<close>. A state setter stores its argument.
\<close>

definition setSelectedColor :: "string \<Rightarrow> DesignState \<Rightarrow> DesignState" where
  "setSelectedColor v s = s\<lparr>selectedColor := Some v\<rparr>"

definition setSelectedSize :: "string \<Rightarrow> DesignState \<Rightarrow> DesignState" where
  "setSelectedSize v s = s\<lparr>selectedSize := Some v\<rparr>"

text \<open>
  The items the colour and size controls offer: the declared values of the selected
  product (lines 391, 406, 525, 616), nothing without a product.
\<close>

definition colorItems :: "DesignState \<Rightarrow> string list" where
  "colorItems s = (case selectedProduct s of None \<Rightarrow> [] | Some p \<Rightarrow> p_colors p)"

definition sizeItems :: "DesignState \<Rightarrow> string list" where
  "sizeItems s = (case selectedProduct s of None \<Rightarrow> [] | Some p \<Rightarrow> p_sizes p)"

text \<open>
  Choosing a colour or a size: the user can pick the item of value \<open>v\<close> only when the
  control renders one, and then its handler, the setter, runs. \<open>None\<close> says that there
  is no such item: no handler runs. The other calls of the two setters are those of
  \<open>fetchProducts\<close> and of the product \<open>Select\<close>, which are part of these handlers
  above.
\<close>

definition chooseColor :: "string \<Rightarrow> DesignState \<Rightarrow> DesignState option" where
  "chooseColor v s = (if v \<in> set (colorItems s) then Some (setSelectedColor v s) else None)"

definition chooseSize :: "string \<Rightarrow> DesignState \<Rightarrow> DesignState option" where
  "chooseSize v s = (if v \<in> set (sizeItems s) then Some (setSelectedSize v s) else None)"

text \<open>
  The invariant the specification states of the selection: with a product selected, the
  selected colour and size are among those the product declares. It is stated of
  catalogues whose products all declare a colour and a size.
\<close>

definition selectionDeclared :: "DesignState \<Rightarrow> bool" where
  "selectionDeclared s =
     (case selectedProduct s of
        None \<Rightarrow> True
      | Some p \<Rightarrow>
          (case selectedColor s of None \<Rightarrow> False | Some c \<Rightarrow> c \<in> set (p_colors p)) \<and>
          (case selectedSize s of None \<Rightarrow> False | Some z \<Rightarrow> z \<in> set (p_sizes p)))"

definition catalogueDeclares :: "Product list \<Rightarrow> bool" where
  "catalogueDeclares ps = list_all (\<lambda>p. p_colors p \<noteq> [] \<and> p_sizes p \<noteq> []) ps"

text \<open>
  The text field (line 440) and the quantity buttons (lines 630, 646); the quantity is
  an integer, where \<open>+ 1\<close> and \<open>- 1\<close> are exact.
\<close>

definition setTextInput :: "utf16 \<Rightarrow> DesignState \<Rightarrow> DesignState" where
  "setTextInput v s = s\<lparr>textInput := v\<rparr>"

definition decreaseQuantity :: "DesignState \<Rightarrow> DesignState" where
  "decreaseQuantity s = s\<lparr>quantity := max 1 (quantity s - 1)\<rparr>"

definition increaseQuantity :: "DesignState \<Rightarrow> DesignState" where
  "increaseQuantity s = s\<lparr>quantity := quantity s + 1\<rparr>"

section \<open>Rendering: the product info overlay\<close>

text \<open>
  \<open>drawCanvas\<close>, lines 119-206, on a mounted canvas with a 2D context (without them it
  returns at once, lines 120-124). The calls of lines 126-195 (clearing, the mockup image
  or the solid fill, the border, the elements) are not unfolded here: \<open>earlier\<close> is the
  exception one of them threw, if any, for instance \<open>drawImage\<close> at line 154 when
  \<open>tshirtImages[selectedColor]\<close> is not an image. After an exception \<open>drawCanvas\<close> ends
  and the overlay is not drawn. Otherwise lines 197-205 run; \<open>overlay\<close> is the calls they
  make on the context. \<open>selectedColor.toUpperCase()\<close> throws a \<open>TypeError\<close> when the
  colour is \<open>undefined\<close>; the calls before it have been made by then. Lines 126-195 do not
  read \<open>selectedSize\<close>.
\<close>

datatype draw_cmd =
    FillStyle string
  | FillRect number number number number
  | Font string
  | TextAlign string
  | FillText string number number

datatype js_error = TypeError | DOMException

definition overlayLabel :: "(string \<Rightarrow> string) \<Rightarrow> Product \<Rightarrow> string \<Rightarrow> string" where
  "overlayLabel toUpperCase p c = p_name p @ '' - '' @ toUpperCase c"

definition overlay ::
  "(string \<Rightarrow> string) \<Rightarrow> DesignState \<Rightarrow> draw_cmd list \<times> js_error option" where
  "overlay toUpperCase s =
     (case selectedProduct s of
        None \<Rightarrow> ([], None)
      | Some p \<Rightarrow>
          (let before = [FillStyle ''rgba(0, 0, 0, 0.7)'', FillRect 5 5 200 25,
                         FillStyle ''#ffffff'', Font ''12px Arial'', TextAlign ''left'']
           in case selectedColor s of
                None \<Rightarrow> (before, Some TypeError)
              | Some c \<Rightarrow> (before @ [FillText (overlayLabel toUpperCase p c) 10 22], None)))"

definition drawCanvas ::
  "(string \<Rightarrow> string) \<Rightarrow> js_error option \<Rightarrow> DesignState \<Rightarrow> draw_cmd list \<times> js_error option" where
  "drawCanvas toUpperCase earlier s =
     (case earlier of
        Some e \<Rightarrow> ([], Some e)
      | None \<Rightarrow> overlay toUpperCase s)"

text \<open>
  \<open>toUpperCase\<close> on ASCII letters, for the examples below.
\<close>

definition ascii_upper :: "string \<Rightarrow> string" where
  "ascii_upper t =
     map (\<lambda>c. if 97 \<le> (of_char c :: nat) \<and> (of_char c :: nat) \<le> 122
                then char_of ((of_char c :: nat) - 32) else c) t"

section \<open>Pricing\<close>

text \<open>
  The operations of the platform on the doubles \<open>'d\<close> of the prices: \<open>parseFloat\<close>, the
  double of a number the source writes or the state holds (\<open>5\<close>, \<open>0\<close>, the quantity), the
  \<open>+\<close> and the \<open>*\<close> of two doubles, and \<open>toFixed\<close>.
\<close>

record 'd js_numbers =
  js_parseFloat :: "string \<Rightarrow> 'd"
  js_num :: "number \<Rightarrow> 'd"
  js_add :: "'d \<Rightarrow> 'd \<Rightarrow> 'd"
  js_mul :: "'d \<Rightarrow> 'd \<Rightarrow> 'd"
  js_toFixed :: "'d \<Rightarrow> nat \<Rightarrow> string"





text \<open>\<open>customPrice\<close> of \<open>addToCartWithDesign\<close>, line 313.\<close>

definition customPrice :: "'d js_numbers \<Rightarrow> Product \<Rightarrow> DesignElement list \<Rightarrow> string" where
  "customPrice J p els =
     js_toFixed J
       (js_add J (js_parseFloat J (p_basePrice p)) (js_num J (if length els > 0 then 5 else 0))) 2"

section \<open>Persistence and the cart\<close>

text \<open>
  What a handler does to the outside, in the order it does it: toasts, console
  messages, the \<open>POST /api/designs\<close> request with its JSON body (lines 266-274) and the
  cart mutation with its line item (lines 315-324).
\<close>

record designData =
  dd_product :: Product
  dd_elements :: "DesignElement list"
  dd_color :: "string option"
  dd_size :: "string option"

record designRequest =
  dr_name :: string
  dr_designData :: designData
  dr_thumbnail :: "string option"

record cartItemData =
  ci_productId :: string
  ci_designId :: "string option"
  ci_quantity :: number
  ci_size :: "string option"
  ci_color :: "string option"
  ci_customPrice :: string

datatype toast_kind = ToastError | ToastSuccess | ToastInfo

datatype event =
    Toast toast_kind string
  | ConsoleError string
  | PostDesign designRequest
  | CartMutate cartItemData

text \<open>
  How \<open>fetch('/api/designs', ...)\<close> ends: the promise rejects, the response is not
  \<open>ok\<close>, the response is \<open>ok\<close> but its body is not JSON, or the response is \<open>ok\<close> and its
  body is the created record, of which the handler reads \<open>id\<close>.
\<close>

datatype fetch_outcome = FetchRejected | ResponseNotOk | ResponseBadJson | ResponseOk string

text \<open>
  The failures the specification names, read off the toast a handler shows:
  \<open>NotAuthenticated\<close> for the two login messages, \<open>ValidationError\<close> for the messages
  about a missing product or missing elements, \<open>Unavailable\<close> for the failed requests.
  No toast of the component speaks of a selection, so none is read as
  \<open>InvalidSelection\<close>.
\<close>

datatype failure = InvalidSelection | NotAuthenticated | ValidationError | Unavailable

definition failure_of :: "event \<Rightarrow> failure option" where
  "failure_of e =
     (if e = Toast ToastError ''Please login to save designs'' then Some NotAuthenticated
      else if e = Toast ToastError ''Please login to add items to cart'' then Some NotAuthenticated
      else if e = Toast ToastError ''Please select a product and add some design elements''
        then Some ValidationError
      else if e = Toast ToastError ''Please select a product first'' then Some ValidationError
      else if e = Toast ToastError ''Failed to save design'' then Some Unavailable
      else if e = Toast ToastError ''Failed to add to cart'' then Some Unavailable
      else None)"

definition failures :: "event list \<Rightarrow> failure list" where
  "failures evs = List.map_filter failure_of evs"

text \<open>
  \<open>saveDesign\<close>, lines 243-291. \<open>user\<close> is what \<open>useAuth\<close> gives, \<open>thumbnail\<close> what
  \<open>canvas?.toDataURL('image/png')\<close> gives, \<open>resp\<close> how the request ends. \<open>saveRequest\<close> is
  the body of the request, lines 259-273. The result is the value the promise resolves
  to, the state after the handler's last state update, and the trace. The handler runs to
  its end before the next one starts.
\<close>

definition saveRequest :: "Product \<Rightarrow> DesignState \<Rightarrow> string option \<Rightarrow> designRequest" where
  "saveRequest p s thumbnail =
     \<lparr>dr_name = p_name p @ '' Design'',
      dr_designData =
        \<lparr>dd_product = p, dd_elements = elements s,
         dd_color = selectedColor s, dd_size = selectedSize s\<rparr>,
      dr_thumbnail = thumbnail\<rparr>"

definition saveDesign ::
  "'u option \<Rightarrow> string option \<Rightarrow> fetch_outcome \<Rightarrow> DesignState
     \<Rightarrow> string option \<times> DesignState \<times> event list" where
  "saveDesign user thumbnail resp s =
     (if user = None then (None, s, [Toast ToastError ''Please login to save designs''])
      else case selectedProduct s of
        None \<Rightarrow>
          (None, s, [Toast ToastError ''Please select a product and add some design elements''])
      | Some p \<Rightarrow>
          if length (elements s) = 0
          then (None, s, [Toast ToastError ''Please select a product and add some design elements''])
          else
            (case resp of
               ResponseOk i \<Rightarrow>
                 (Some i, s\<lparr>isLoading := False, savedDesignId := Some i\<rparr>,
                  [PostDesign (saveRequest p s thumbnail),
                   Toast ToastSuccess ''Design saved successfully!''])
             | _ \<Rightarrow>
                 (None, s\<lparr>isLoading := False\<rparr>,
                  [PostDesign (saveRequest p s thumbnail), ConsoleError ''Save design error:'',
                   Toast ToastError ''Failed to save design''])))"

text \<open>
  \<open>addToCartWithDesign\<close>, lines 293-331. \<open>cart_ok\<close> says whether
  \<open>addToCartMutation.mutateAsync\<close> resolves. The call of \<open>saveDesign\<close> is the closure of the
  same render, so it sees the state the handler started with.
\<close>

definition addToCartWithDesign ::
  "'d js_numbers \<Rightarrow> 'u option \<Rightarrow> string option
     \<Rightarrow> fetch_outcome \<Rightarrow> bool \<Rightarrow> DesignState \<Rightarrow> DesignState \<times> event list" where
  "addToCartWithDesign J user thumbnail resp cart_ok s =
     (if user = None then (s, [Toast ToastError ''Please login to add items to cart''])
      else case selectedProduct s of
        None \<Rightarrow> (s, [Toast ToastError ''Please select a product first''])
      | Some p \<Rightarrow>
          (let (designId, s1, saved) =
                 (if length (elements s) > 0 \<and> \<not> truthy (savedDesignId s)
                  then saveDesign user thumbnail resp s
                  else (savedDesignId s, s, []));
               cartItem =
                 \<lparr>ci_productId = p_id p, ci_designId = designId, ci_quantity = quantity s,
                  ci_size = selectedSize s, ci_color = selectedColor s,
                  ci_customPrice = customPrice J p (elements s)\<rparr>
           in (s1\<lparr>isLoading := False\<rparr>,
               saved @ [CartMutate cartItem] @
               (if cart_ok then []
                else [ConsoleError ''Add to cart error:'',
                      Toast ToastError ''Failed to add to cart'']))))"

section \<open>An editing session\<close>

text \<open>
  What the user can do in the studio, each action with what its handler reads from the
  outside when it runs, and the session as the handlers run one after the other.
  Choosing a colour or a size that the control does not offer is no event: the state
  stays as it is.
\<close>

datatype action =
    ChooseProduct string
  | ChooseColor string
  | ChooseSize string
  | TypeText utf16
  | AddText nat
  | AddShape shapeType nat
  | DecreaseQuantity
  | IncreaseQuantity
  | SaveDesign "string option" fetch_outcome
  | AddToCart "string option" fetch_outcome bool

fun step ::
  "'d js_numbers \<Rightarrow> 'u option \<Rightarrow> action \<Rightarrow> DesignState \<Rightarrow> DesignState \<times> event list" where
  "step J user (ChooseProduct v) s = (productSelect_onValueChange v s, [])"
| "step J user (ChooseColor v) s = ((case chooseColor v s of None \<Rightarrow> s | Some s1 \<Rightarrow> s1), [])"
| "step J user (ChooseSize v) s = ((case chooseSize v s of None \<Rightarrow> s | Some s1 \<Rightarrow> s1), [])"
| "step J user (TypeText v) s = (setTextInput v s, [])"
| "step J user (AddText now) s = (addText now s, [])"
| "step J user (AddShape shape now) s = (addShape shape now s, [])"
| "step J user DecreaseQuantity s = (decreaseQuantity s, [])"
| "step J user IncreaseQuantity s = (increaseQuantity s, [])"
| "step J user (SaveDesign thumbnail resp) s = snd (saveDesign user thumbnail resp s)"
| "step J user (AddToCart thumbnail resp cart_ok) s =
     addToCartWithDesign J user thumbnail resp cart_ok s"

fun run ::
  "'d js_numbers \<Rightarrow> 'u option \<Rightarrow> action list \<Rightarrow> DesignState \<Rightarrow> DesignState \<times> event list" where
  "run J user [] s = (s, [])"
| "run J user (a # as) s =
     (let (s1, evs1) = step J user a s; (s2, evs2) = run J user as s1
      in (s2, evs1 @ evs2))"

text \<open>The clock readings of the actions that create an element.\<close>

fun stamps :: "action list \<Rightarrow> nat list" where
  "stamps [] = []"
| "stamps (AddText now # as) = now # stamps as"
| "stamps (AddShape shape now # as) = now # stamps as"
| "stamps (a # as) = stamps as"

section \<open>Example inputs\<close>

text \<open>
  The product of the specification's scenario and a second product, the studio after
  this catalogue has loaded, the specification's scenario (colour black, size M, the text
  "Hi", quantity 3), and the operations on the prices that occur in the examples: 20,
  5, 3, 25 and 75 are doubles and their sums and products are exact.
\<close>

definition tee :: Product where
  "tee =
     \<lparr>p_id = ''p1'', p_name = ''Classic Tee'', p_description = ''Cotton t-shirt'',
      p_basePrice = ''20.00'', p_category = ''t-shirts'',
      p_colors = [''white'', ''black''], p_sizes = [''S'', ''M''], p_imageUrl = None\<rparr>"

definition tote :: Product where
  "tote =
     \<lparr>p_id = ''p2'', p_name = ''Tote Bag'', p_description = ''Canvas bag'',
      p_basePrice = ''12.50'', p_category = ''bags'',
      p_colors = [''natural''], p_sizes = [''One Size''], p_imageUrl = None\<rparr>"

definition studio :: DesignState where
  "studio = fetchProducts [tee, tote] initialState"

definition parseFloat_ex :: "string \<Rightarrow> number" where
  "parseFloat_ex t = (if t = ''20.00'' then 20 else 0)"

definition toFixed_ex :: "number \<Rightarrow> nat \<Rightarrow> string" where
  "toFixed_ex v n =
     (if v = 20 then ''20.00'' else if v = 25 then ''25.00'' else if v = 75 then ''75.00''
      else ''0.00'')"

definition numbers_ex :: "real js_numbers" where
  "numbers_ex =
     \<lparr>js_parseFloat = parseFloat_ex, js_num = (\<lambda>x. x), js_add = (\<lambda>x y. x + y),
      js_mul = (\<lambda>x y. x * y),
      js_toFixed = toFixed_ex\<rparr>"

text \<open>The code units of "Hi".\<close>

definition hi :: utf16 where
  "hi = [72, 105]"

definition scenario :: DesignState where
  "scenario =
     fst (run numbers_ex (Some ''alice'')
            [ChooseColor ''black'', ChooseSize ''M'', TypeText hi, AddText 1000,
             IncreaseQuantity, IncreaseQuantity] studio)"

definition saved_then_edited :: DesignState where
  "saved_then_edited =
     fst (run numbers_ex (Some ''alice'')
            [SaveDesign None (ResponseOk ''d1''), AddShape circle 2000] scenario)"

section \<open>Facts about the builtins\<close>

lemma dropWhile_all_iff: "(\<forall>x \<in> set (dropWhile P xs). P x) \<longleftrightarrow> (\<forall>x \<in> set xs. P x)"
  by (induction xs) auto

lemma trim_empty_iff: "trim s = [] \<longleftrightarrow> (\<forall>u \<in> set s. isWhiteSpace u)"
  by (simp add: trim_def dropWhile_eq_Nil_conv dropWhile_all_iff)

lemma digit_inj: "a < 10 \<Longrightarrow> b < 10 \<Longrightarrow> digit a = digit b \<Longrightarrow> a = b"
  by (simp add: digit_def nth_eq_iff_index_eq)

lemma toString_not_Nil: "toString n \<noteq> []"
  by (subst toString.simps) simp

text \<open>Two numbers with the same decimal digits are equal.\<close>

lemma toString_inj: "toString n = toString m \<Longrightarrow> n = m"
proof (induction n arbitrary: m rule: toString.induct)
  case (1 n)
  show ?case
  proof (cases "n < 10")
    case True
    show ?thesis
    proof (cases "m < 10")
      case mt: True
      from "1.prems" True mt have "digit n = digit m"
        by (simp add: toString.simps [of n] toString.simps [of m])
      with True mt show ?thesis by (rule_tac digit_inj)
    next
      case mf: False
      from "1.prems" True mf have "[digit n] = toString (m div 10) @ [digit (m mod 10)]"
        by (simp add: toString.simps [of n] toString.simps [of m])
      then have "toString (m div 10) = []" by simp
      with toString_not_Nil show ?thesis by blast
    qed
  next
    case False
    show ?thesis
    proof (cases "m < 10")
      case mt: True
      from "1.prems" False mt have "toString (n div 10) @ [digit (n mod 10)] = [digit m]"
        by (simp add: toString.simps [of n] toString.simps [of m])
      then have "toString (n div 10) = []" by simp
      with toString_not_Nil show ?thesis by blast
    next
      case mf: False
      from "1.prems" False mf
      have "toString (n div 10) @ [digit (n mod 10)] = toString (m div 10) @ [digit (m mod 10)]"
        by (simp add: toString.simps [of n] toString.simps [of m])
      then have q: "toString (n div 10) = toString (m div 10)"
        and d: "digit (n mod 10) = digit (m mod 10)" by simp_all
      from "1.IH" [OF False q] have "n div 10 = m div 10" .
      moreover from d have "n mod 10 = m mod 10" by (intro digit_inj) simp_all
      ultimately show ?thesis by (metis div_mult_mod_eq)
    qed
  qed
qed

lemma ascii_upper_black: "ascii_upper ''black'' = ''BLACK''"
  by code_simp

section \<open>The example states, computed\<close>

lemma studio_simp:
  "studio =
     initialState\<lparr>products := [tee, tote], selectedProduct := Some tee,
       selectedColor := Some ''white'', selectedSize := Some ''S''\<rparr>"
  by (simp add: studio_def fetchProducts_def tee_def js_index_def)

lemma scenario_simp:
  "scenario =
     studio\<lparr>elements :=
              [\<lparr>e_id = ''1000'', e_type = Text, e_content = hi,
                e_x = 160, e_y = 200, e_width = 100, e_height = 30, e_color = ''#000000'',
                e_fontSize = Some 24, e_fontFamily = Some ''Arial''\<rparr>],
            selectedColor := Some ''black'', selectedSize := Some ''M'', quantity := 3\<rparr>"
  by (simp add: scenario_def studio_simp initialState_def chooseColor_def chooseSize_def
      colorItems_def sizeItems_def tee_def setSelectedColor_def setSelectedSize_def
      setTextInput_def addText_def trim_def isWhiteSpace_def hi_def increaseQuantity_def
      toString.simps digit_def)

lemma saved_then_edited_simp:
  "saved_then_edited =
     scenario\<lparr>elements := elements scenario @
                 [\<lparr>e_id = ''2000'', e_type = Shape, e_content = shapeName circle,
                   e_x = 160, e_y = 200, e_width = 60, e_height = 60,
                   e_color = ''#000000'', e_fontSize = None, e_fontFamily = None\<rparr>],
               isLoading := False, savedDesignId := Some ''d1''\<rparr>"
  by (simp add: saved_then_edited_def saveDesign_def addShape_def scenario_simp studio_simp
      initialState_def toString.simps digit_def del: shapeName.simps)

section \<open>Pricing\<close>



section \<open>Selecting a colour and a size\<close>



text \<open>No trace of the component holds a failure that reads as \<open>InvalidSelection\<close>.\<close>

lemma failure_of_not_InvalidSelection: "failure_of e \<noteq> Some InvalidSelection"
  by (simp add: failure_of_def)

lemma no_InvalidSelection: "InvalidSelection \<notin> set (failures evs)"
  by (induction evs)
    (auto simp add: failures_def List.map_filter_simps failure_of_not_InvalidSelection
       split: option.splits)


text \<open>
  In a catalogue whose products all declare a colour and a size, no action of a session
  takes the selection out of what the selected product declares.
\<close>

lemma saveDesign_selection:
  "products (fst (snd (saveDesign user thumbnail resp s))) = products s \<and>
   selectedProduct (fst (snd (saveDesign user thumbnail resp s))) = selectedProduct s \<and>
   selectedColor (fst (snd (saveDesign user thumbnail resp s))) = selectedColor s \<and>
   selectedSize (fst (snd (saveDesign user thumbnail resp s))) = selectedSize s"
  by (simp add: saveDesign_def split: option.splits fetch_outcome.splits)

lemma addToCart_selection:
  "products (fst (addToCartWithDesign J user thumbnail resp cart_ok s)) = products s \<and>
   selectedProduct (fst (addToCartWithDesign J user thumbnail resp cart_ok s)) =
     selectedProduct s \<and>
   selectedColor (fst (addToCartWithDesign J user thumbnail resp cart_ok s)) = selectedColor s \<and>
   selectedSize (fst (addToCartWithDesign J user thumbnail resp cart_ok s)) = selectedSize s"
  by (simp add: addToCartWithDesign_def saveDesign_def
      split: option.splits fetch_outcome.splits)

lemma selectionDeclared_cong:
  "selectedProduct t = selectedProduct s \<Longrightarrow> selectedColor t = selectedColor s \<Longrightarrow>
   selectedSize t = selectedSize s \<Longrightarrow> selectionDeclared t = selectionDeclared s"
  by (simp add: selectionDeclared_def cong: option.case_cong)

lemma step_keeps_products: "products (fst (step J user a s)) = products s"
proof (cases a)
  case (ChooseProduct v)
  then show ?thesis by (simp add: productSelect_onValueChange_def split: option.splits)
next
  case (ChooseColor v)
  then show ?thesis by (simp add: chooseColor_def setSelectedColor_def)
next
  case (ChooseSize v)
  then show ?thesis by (simp add: chooseSize_def setSelectedSize_def)
next
  case (SaveDesign thumbnail resp)
  then show ?thesis by (simp add: saveDesign_selection)
next
  case (AddToCart thumbnail resp cart_ok)
  then show ?thesis by (simp add: addToCart_selection)
qed (simp_all add: setTextInput_def addText_def addShape_def decreaseQuantity_def
       increaseQuantity_def)

lemma find_in_catalogue:
  "find Q ps = Some p \<Longrightarrow> catalogueDeclares ps \<Longrightarrow> p_colors p \<noteq> [] \<and> p_sizes p \<noteq> []"
  by (induction ps) (auto simp add: catalogueDeclares_def split: if_splits)

lemma step_keeps_selectionDeclared:
  assumes c: "catalogueDeclares (products s)" and d: "selectionDeclared s"
  shows "selectionDeclared (fst (step J user a s))"
proof (cases a)
  case (ChooseProduct v)
  show ?thesis
  proof (cases "find (\<lambda>p. p_id p = v) (products s)")
    case None
    with ChooseProduct d show ?thesis by (simp add: productSelect_onValueChange_def)
  next
    case (Some p)
    from find_in_catalogue [OF Some c] have "p_colors p \<noteq> []" "p_sizes p \<noteq> []" by simp_all
    with ChooseProduct Some show ?thesis
      by (simp add: productSelect_onValueChange_def selectionDeclared_def js_index_def)
  qed
next
  case (ChooseColor v)
  with d show ?thesis
    by (simp add: chooseColor_def colorItems_def setSelectedColor_def selectionDeclared_def
        split: option.splits cong: option.case_cong)
next
  case (ChooseSize v)
  with d show ?thesis
    by (simp add: chooseSize_def sizeItems_def setSelectedSize_def selectionDeclared_def
        split: option.splits cong: option.case_cong)
next
  case (TypeText v)
  with d show ?thesis by (simp add: setTextInput_def selectionDeclared_def cong: option.case_cong)
next
  case (AddText now)
  with d show ?thesis by (simp add: addText_def selectionDeclared_def cong: option.case_cong)
next
  case (AddShape shape now)
  with d show ?thesis by (simp add: addShape_def selectionDeclared_def cong: option.case_cong)
next
  case DecreaseQuantity
  with d show ?thesis by (simp add: decreaseQuantity_def selectionDeclared_def cong: option.case_cong)
next
  case IncreaseQuantity
  with d show ?thesis by (simp add: increaseQuantity_def selectionDeclared_def cong: option.case_cong)
next
  case (SaveDesign thumbnail resp)
  have "selectionDeclared (fst (snd (saveDesign user thumbnail resp s))) = selectionDeclared s"
    by (rule selectionDeclared_cong) (simp_all add: saveDesign_selection)
  with SaveDesign d show ?thesis by simp
next
  case (AddToCart thumbnail resp cart_ok)
  have "selectionDeclared (fst (addToCartWithDesign J user thumbnail resp cart_ok s)) =
          selectionDeclared s"
    by (rule selectionDeclared_cong) (simp_all add: addToCart_selection)
  with AddToCart d show ?thesis by simp
qed

lemma run_Cons_fst:
  "fst (run J user (a # as) s) = fst (run J user as (fst (step J user a s)))"
  by (simp add: case_prod_beta)

lemma run_keeps_selectionDeclared:
  "catalogueDeclares (products s) \<Longrightarrow> selectionDeclared s \<Longrightarrow>
   selectionDeclared (fst (run J user as s))"
proof (induction as arbitrary: s)
  case Nil
  then show ?case by simp
next
  case (Cons a as)
  from Cons.prems have "catalogueDeclares (products (fst (step J user a s)))"
    by (simp add: step_keeps_products)
  moreover from Cons.prems have "selectionDeclared (fst (step J user a s))"
    by (rule step_keeps_selectionDeclared)
  ultimately have "selectionDeclared (fst (run J user as (fst (step J user a s))))"
    by (rule Cons.IH)
  then show ?case by (simp only: run_Cons_fst)
qed

section \<open>Saving\<close>

text \<open>
  C3, as the code has it. With no product selected or no element, \<open>saveDesign\<close> resolves
  to \<open>null\<close>, sends no request, leaves the whole state as it was and shows one error
  toast: the validation message when a user is signed in, the login message when none
  is (the check of the user comes first).
\<close>

theorem saveDesign_rejects_incomplete:
  "selectedProduct s = None \<or> elements s = [] \<Longrightarrow>
     saveDesign user thumbnail resp s =
       (None, s,
        [Toast ToastError
           (if user = None then ''Please login to save designs''
            else ''Please select a product and add some design elements'')]) \<and>
     failures (snd (snd (saveDesign user thumbnail resp s))) =
       [if user = None then NotAuthenticated else ValidationError]"
  by (auto simp add: saveDesign_def failures_def failure_of_def List.map_filter_simps
      split: option.splits)

text \<open>A signed-in user saves the studio before adding any element.\<close>

theorem saveDesign_rejects_incomplete_witness:
  "saveDesign (Some ''alice'') None (ResponseOk ''d1'') studio =
     (None, studio,
      [Toast ToastError ''Please select a product and add some design elements'']) \<and>
   failures (snd (snd (saveDesign (Some ''alice'') None (ResponseOk ''d1'') studio))) =
     [ValidationError]"
proof -
  have e: "selectedProduct studio = None \<or> elements studio = []"
    by (simp add: studio_simp initialState_def)
  have u: "(Some ''alice'' = None) = False" by simp
  show ?thesis
    by (rule saveDesign_rejects_incomplete
          [OF e, of "Some ''alice''" None "ResponseOk ''d1''", unfolded u if_False])
qed

text \<open>
  C3 as stated fails when nobody is signed in: in the studio, with the tee selected and
  no element yet, the Save button is enabled, and the failure of the save is
  \<open>NotAuthenticated\<close>, not \<open>ValidationError\<close>.
\<close>

theorem saveDesign_signed_out_counterexample:
  "selectedProduct studio = Some tee \<and> isLoading studio = False \<and> elements studio = [] \<and>
   saveDesign (None :: string option) None (ResponseOk ''d1'') studio =
     (None, studio, [Toast ToastError ''Please login to save designs'']) \<and>
   failures (snd (snd (saveDesign (None :: string option) None (ResponseOk ''d1'') studio))) =
     [NotAuthenticated] \<and>
   failures (snd (snd (saveDesign (None :: string option) None (ResponseOk ''d1'') studio))) \<noteq>
     [ValidationError]"
  by (simp add: saveDesign_def studio_simp initialState_def failures_def failure_of_def
      List.map_filter_simps)

text \<open>The body of the request does not depend on an identifier recorded before.\<close>

lemma saveRequest_ignores_id [simp]:
  "saveRequest p (s\<lparr>isLoading := l, savedDesignId := d\<rparr>) thumbnail = saveRequest p s thumbnail"
  by (simp add: saveRequest_def)

text \<open>
  C4, as the code has it. Every successful save sends a create request, whose body
  carries no identifier, and records and returns the identifier of the answer. Two
  saves in a row send the same request twice; the first returns the first answer's
  identifier, the second the second's, which is the one recorded in the end.
\<close>

theorem save_again_creates_again:
  "user \<noteq> None \<Longrightarrow> selectedProduct s = Some p \<Longrightarrow> elements s \<noteq> [] \<Longrightarrow>
     run J user [SaveDesign thumbnail (ResponseOk i), SaveDesign thumbnail (ResponseOk j)] s =
       (s\<lparr>isLoading := False, savedDesignId := Some j\<rparr>,
        [PostDesign (saveRequest p s thumbnail), Toast ToastSuccess ''Design saved successfully!'',
         PostDesign (saveRequest p s thumbnail), Toast ToastSuccess ''Design saved successfully!'']) \<and>
     fst (saveDesign user thumbnail (ResponseOk i) s) = Some i \<and>
     fst (saveDesign user thumbnail (ResponseOk j)
            (fst (snd (saveDesign user thumbnail (ResponseOk i) s)))) = Some j"
  by (simp add: saveDesign_def)

theorem save_again_creates_again_witness:
  "run numbers_ex (Some ''alice'')
      [SaveDesign None (ResponseOk ''d1''), SaveDesign None (ResponseOk ''d2'')] scenario =
     (scenario\<lparr>isLoading := False, savedDesignId := Some ''d2''\<rparr>,
      [PostDesign (saveRequest tee scenario None), Toast ToastSuccess ''Design saved successfully!'',
       PostDesign (saveRequest tee scenario None), Toast ToastSuccess ''Design saved successfully!''])"
proof -
  have u: "Some ''alice'' \<noteq> None" by simp
  have p: "selectedProduct scenario = Some tee" by (simp add: scenario_simp studio_simp)
  have e: "elements scenario \<noteq> []" by (simp add: scenario_simp)
  from save_again_creates_again [OF u p e, of numbers_ex None "''d1''" "''d2''"]
  show ?thesis by (rule conjunct1)
qed

text \<open>
  C4 as stated fails: the scenario saved twice with no edit in between, the server
  answering the two create requests with the records d1 and d2, returns two
  identifiers.
\<close>

theorem save_twice_counterexample:
  "fst (saveDesign (Some ''alice'') None (ResponseOk ''d1'') scenario) = Some ''d1'' \<and>
   fst (saveDesign (Some ''alice'') None (ResponseOk ''d2'')
          (fst (snd (saveDesign (Some ''alice'') None (ResponseOk ''d1'') scenario)))) =
     Some ''d2'' \<and>
   Some ''d1'' \<noteq> Some ''d2'' \<and>
   elements (fst (snd (saveDesign (Some ''alice'') None (ResponseOk ''d1'') scenario))) =
     elements scenario \<and>
   snd (run numbers_ex (Some ''alice'')
          [SaveDesign None (ResponseOk ''d1''), SaveDesign None (ResponseOk ''d2'')] scenario) =
     [PostDesign (saveRequest tee scenario None), Toast ToastSuccess ''Design saved successfully!'',
      PostDesign (saveRequest tee scenario None), Toast ToastSuccess ''Design saved successfully!'']"
  by (simp add: saveDesign_def scenario_simp studio_simp initialState_def saveRequest_def)

section \<open>Adding to the cart\<close>

text \<open>
  What holds of C5: with elements and no identifier recorded, add-to-cart saves first,
  and when that save succeeds the line item, built after it, references the new record
  and carries the product identifier, quantity, size, colour and the unit price of that
  moment through \<open>toFixed(2)\<close>.
\<close>

lemma addToCart_implicit_save_ok:
  "user \<noteq> None \<Longrightarrow> selectedProduct s = Some p \<Longrightarrow> elements s \<noteq> [] \<Longrightarrow>
   \<not> truthy (savedDesignId s) \<Longrightarrow>
   addToCartWithDesign J user thumbnail (ResponseOk i) cart_ok s =
     (s\<lparr>isLoading := False, savedDesignId := Some i\<rparr>,
      [PostDesign (saveRequest p s thumbnail), Toast ToastSuccess ''Design saved successfully!'',
       CartMutate \<lparr>ci_productId = p_id p, ci_designId = Some i, ci_quantity = quantity s,
                   ci_size = selectedSize s, ci_color = selectedColor s,
                   ci_customPrice =
                     js_toFixed J (js_add J (js_parseFloat J (p_basePrice p)) (js_num J 5)) 2\<rparr>] @
      (if cart_ok then []
       else [ConsoleError ''Add to cart error:'', Toast ToastError ''Failed to add to cart'']))"
  by (simp add: addToCartWithDesign_def saveDesign_def customPrice_def)

text \<open>
  C5, where the code departs from it. The scenario (one text element, no identifier
  recorded, a user signed in) is added to the cart and the server refuses the create
  request: the handler shows the save's error and still adds a line item, priced with
  the design fee and with no design identifier.
\<close>

theorem addToCart_after_failed_save:
  "addToCartWithDesign numbers_ex (Some ''alice'') None ResponseNotOk True scenario =
     (scenario,
      [PostDesign (saveRequest tee scenario None), ConsoleError ''Save design error:'',
       Toast ToastError ''Failed to save design'',
       CartMutate \<lparr>ci_productId = ''p1'', ci_designId = None, ci_quantity = 3,
                   ci_size = Some ''M'', ci_color = Some ''black'', ci_customPrice = ''25.00''\<rparr>])"
  by (simp add: addToCartWithDesign_def saveDesign_def truthy_def customPrice_def
      scenario_simp studio_simp initialState_def tee_def numbers_ex_def parseFloat_ex_def
      toFixed_ex_def)

text \<open>
  A recorded identifier stays recorded through every action but an explicit save.
\<close>

lemma recorded_id_persists:
  "savedDesignId s = Some d \<Longrightarrow> d \<noteq> [] \<Longrightarrow> (\<And>thumbnail resp. a \<noteq> SaveDesign thumbnail resp) \<Longrightarrow>
   savedDesignId (fst (step J user a s)) = Some d"
  by (cases a)
    (auto simp add: productSelect_onValueChange_def chooseColor_def chooseSize_def
       setSelectedColor_def setSelectedSize_def setTextInput_def addText_def addShape_def
       decreaseQuantity_def increaseQuantity_def addToCartWithDesign_def truthy_def
       split: option.splits)

text \<open>
  C10. Once an identifier is recorded (a non-empty string: the empty string counts as
  none in the guard of line 308), add-to-cart sends no create request, whatever the
  elements are now and however the server would answer, and the line item references the
  recorded identifier.
\<close>

theorem addToCart_reuses_saved_design:
  "user \<noteq> None \<Longrightarrow> selectedProduct s = Some p \<Longrightarrow> savedDesignId s = Some d \<Longrightarrow> d \<noteq> [] \<Longrightarrow>
     addToCartWithDesign J user thumbnail resp cart_ok s =
       (s\<lparr>isLoading := False\<rparr>,
        [CartMutate \<lparr>ci_productId = p_id p, ci_designId = Some d, ci_quantity = quantity s,
                     ci_size = selectedSize s, ci_color = selectedColor s,
                     ci_customPrice = customPrice J p (elements s)\<rparr>] @
        (if cart_ok then []
         else [ConsoleError ''Add to cart error:'', Toast ToastError ''Failed to add to cart'']))"
  by (simp add: addToCartWithDesign_def truthy_def)

text \<open>
  The scenario is saved as d1 with one element, a circle is added, and the design is
  added to the cart: the line item references d1, whose snapshot has one element, while
  the design has two.
\<close>

theorem addToCart_reuses_saved_design_witness:
  "savedDesignId saved_then_edited = Some ''d1'' \<and>
   length (elements saved_then_edited) = 2 \<and>
   addToCartWithDesign numbers_ex (Some ''alice'') None (ResponseOk ''d2'') True
       saved_then_edited =
     (saved_then_edited,
      [CartMutate \<lparr>ci_productId = ''p1'', ci_designId = Some ''d1'', ci_quantity = 3,
                   ci_size = Some ''M'', ci_color = Some ''black'', ci_customPrice = ''25.00''\<rparr>])"
proof -
  have u: "Some ''alice'' \<noteq> None" by simp
  have p: "selectedProduct saved_then_edited = Some tee"
    by (simp add: saved_then_edited_simp scenario_simp studio_simp)
  have i: "savedDesignId saved_then_edited = Some ''d1''" by (simp add: saved_then_edited_simp)
  have n: "''d1'' \<noteq> []" by simp
  have c: "customPrice numbers_ex tee (elements saved_then_edited) = ''25.00''"
    by (simp add: customPrice_def saved_then_edited_simp scenario_simp
        numbers_ex_def parseFloat_ex_def toFixed_ex_def tee_def)
  from addToCart_reuses_saved_design
         [OF u p i n, of numbers_ex None "ResponseOk ''d2''" True] c
  show ?thesis
    by (simp add: saved_then_edited_simp scenario_simp studio_simp initialState_def tee_def)
qed

section \<open>The overlay of the render\<close>

text \<open>
  C6, as the code has it. With the product \<open>p\<close> selected, after a colour and a size
  that \<open>p\<close> declares are chosen, a render whose earlier drawing steps complete draws the
  overlay with the text made of the product's name, \<open>" - "\<close> and the chosen colour in
  upper case. The size is not part of it: the render is the same whatever size is
  chosen.
\<close>

theorem overlay_shows_name_and_color:
  "selectedProduct s = Some p \<Longrightarrow> c \<in> set (p_colors p) \<Longrightarrow> z \<in> set (p_sizes p) \<Longrightarrow>
     fst (run J user [ChooseColor c, ChooseSize z] s) =
       s\<lparr>selectedColor := Some c, selectedSize := Some z\<rparr> \<and>
     drawCanvas up None (s\<lparr>selectedColor := Some c, selectedSize := Some z\<rparr>) =
       ([FillStyle ''rgba(0, 0, 0, 0.7)'', FillRect 5 5 200 25, FillStyle ''#ffffff'',
         Font ''12px Arial'', TextAlign ''left'',
         FillText (p_name p @ '' - '' @ up c) 10 22], None) \<and>
     drawCanvas up earlier (s\<lparr>selectedColor := Some c, selectedSize := Some z\<rparr>) =
       drawCanvas up earlier (s\<lparr>selectedColor := Some c\<rparr>)"
  by (simp add: drawCanvas_def overlay_def overlayLabel_def chooseColor_def chooseSize_def
      colorItems_def sizeItems_def setSelectedColor_def setSelectedSize_def
      split: option.splits)

text \<open>Black and M chosen in the studio.\<close>

theorem overlay_shows_name_and_color_witness:
  "fst (run numbers_ex (Some ''alice'') [ChooseColor ''black'', ChooseSize ''M''] studio) =
     studio\<lparr>selectedColor := Some ''black'', selectedSize := Some ''M''\<rparr> \<and>
   drawCanvas ascii_upper None
       (studio\<lparr>selectedColor := Some ''black'', selectedSize := Some ''M''\<rparr>) =
     ([FillStyle ''rgba(0, 0, 0, 0.7)'', FillRect 5 5 200 25, FillStyle ''#ffffff'',
       Font ''12px Arial'', TextAlign ''left'',
       FillText ''Classic Tee - BLACK'' 10 22], None)"
proof -
  have p: "selectedProduct studio = Some tee" by (simp add: studio_simp)
  have c: "''black'' \<in> set (p_colors tee)" and z: "''M'' \<in> set (p_sizes tee)"
    by (simp_all add: tee_def)
  have n: "p_name tee @ '' - '' @ ascii_upper ''black'' = ''Classic Tee - BLACK''"
    by (simp add: tee_def ascii_upper_black)
  from overlay_shows_name_and_color
         [OF p c z, of numbers_ex "Some ''alice''" ascii_upper None] n
  show ?thesis by simp
qed

text \<open>
  C6 as stated fails: after black and S are chosen in the studio, and after black and M
  are, the selected sizes differ and the renders are the same; the text of the overlay
  names no size.
\<close>

theorem overlay_ignores_size_counterexample:
  "selectedSize
     (fst (run numbers_ex (Some ''alice'') [ChooseColor ''black'', ChooseSize ''S''] studio)) \<noteq>
   selectedSize
     (fst (run numbers_ex (Some ''alice'') [ChooseColor ''black'', ChooseSize ''M''] studio)) \<and>
   drawCanvas ascii_upper None
       (fst (run numbers_ex (Some ''alice'') [ChooseColor ''black'', ChooseSize ''S''] studio)) =
     drawCanvas ascii_upper None
       (fst (run numbers_ex (Some ''alice'') [ChooseColor ''black'', ChooseSize ''M''] studio)) \<and>
   drawCanvas ascii_upper None
       (fst (run numbers_ex (Some ''alice'') [ChooseColor ''black'', ChooseSize ''M''] studio)) =
     ([FillStyle ''rgba(0, 0, 0, 0.7)'', FillRect 5 5 200 25, FillStyle ''#ffffff'',
       Font ''12px Arial'', TextAlign ''left'',
       FillText ''Classic Tee - BLACK'' 10 22], None)"
  by (simp add: drawCanvas_def overlay_def overlayLabel_def chooseColor_def chooseSize_def
      colorItems_def sizeItems_def setSelectedSize_def setSelectedColor_def
      studio_simp initialState_def tee_def ascii_upper_black)

section \<open>Adding text\<close>

text \<open>
  C7. When the text field is empty or holds only white space, \<open>addText\<close> changes
  nothing. Otherwise it appends exactly one text element, with the field's content, at
  the anchor (160, 200), behind the elements already there, which stay as they were.
\<close>

theorem addText_blank_or_append:
  "((\<forall>u \<in> set (textInput s). isWhiteSpace u) \<longrightarrow> addText now s = s) \<and>
   (\<not> (\<forall>u \<in> set (textInput s). isWhiteSpace u) \<longrightarrow>
      elements (addText now s) =
        elements s @
          [\<lparr>e_id = toString now, e_type = Text, e_content = textInput s,
            e_x = 160, e_y = 200, e_width = 100, e_height = 30, e_color = textColor s,
            e_fontSize = Some (fontSize s), e_fontFamily = Some (fontFamily s)\<rparr>])"
  by (simp add: addText_def trim_empty_iff)

text \<open>
  A space and a tab add nothing, nor do an ideographic space, an em space and a byte
  order mark; "Hi" adds one element.
\<close>

theorem addText_blank_or_append_witness:
  "addText 1000 (initialState\<lparr>textInput := [32, 9]\<rparr>) = initialState\<lparr>textInput := [32, 9]\<rparr> \<and>
   addText 1000 (initialState\<lparr>textInput := [12288, 8195, 65279]\<rparr>) =
     initialState\<lparr>textInput := [12288, 8195, 65279]\<rparr> \<and>
   map e_content (elements (addText 1000 (initialState\<lparr>textInput := hi\<rparr>))) = [hi]"
  using addText_blank_or_append [of "initialState\<lparr>textInput := [32, 9]\<rparr>" 1000]
        addText_blank_or_append [of "initialState\<lparr>textInput := [12288, 8195, 65279]\<rparr>" 1000]
        addText_blank_or_append [of "initialState\<lparr>textInput := hi\<rparr>" 1000]
  by (simp add: initialState_def isWhiteSpace_def hi_def)

section \<open>Selecting a product\<close>

text \<open>
  In a catalogue whose identifiers are pairwise distinct, the item of a product resolves
  to that product.
\<close>

lemma find_by_id:
  "p \<in> set ps \<Longrightarrow> distinct (map p_id ps) \<Longrightarrow> find (\<lambda>q. p_id q = p_id p) ps = Some p"
  by (induction ps) auto

text \<open>
  C8. When the chosen value resolves to the product \<open>p\<close> of the catalogue and \<open>p\<close> has
  colours and sizes, the handler selects \<open>p\<close>, its first colour and its first size, and
  changes nothing else: the elements persist.
\<close>

theorem productSelect_resets_selection:
  "find (\<lambda>q. p_id q = v) (products s) = Some p \<Longrightarrow> p_colors p \<noteq> [] \<Longrightarrow> p_sizes p \<noteq> [] \<Longrightarrow>
     productSelect_onValueChange v s =
       s\<lparr>selectedProduct := Some p, selectedColor := Some (p_colors p ! 0),
         selectedSize := Some (p_sizes p ! 0)\<rparr> \<and>
     elements (productSelect_onValueChange v s) = elements s"
  by (simp add: productSelect_onValueChange_def js_index_def)

text \<open>Switching the scenario from the tee to the tote bag keeps its text element.\<close>

theorem productSelect_resets_selection_witness:
  "productSelect_onValueChange ''p2'' scenario =
     scenario\<lparr>selectedProduct := Some tote, selectedColor := Some ''natural'',
       selectedSize := Some ''One Size''\<rparr> \<and>
   elements (productSelect_onValueChange ''p2'' scenario) = elements scenario \<and>
   elements scenario \<noteq> []"
proof -
  have f: "find (\<lambda>q. p_id q = ''p2'') (products scenario) = Some tote"
    by (simp add: scenario_simp studio_simp tee_def tote_def)
  have c: "p_colors tote \<noteq> []" and z: "p_sizes tote \<noteq> []" by (simp_all add: tote_def)
  have v: "p_colors tote ! 0 = ''natural''" "p_sizes tote ! 0 = ''One Size''"
    by (simp_all add: tote_def)
  from productSelect_resets_selection [OF f c z] v
  show ?thesis by (simp add: scenario_simp)
qed

section \<open>Element identifiers\<close>

text \<open>No handler but \<open>addText\<close> and \<open>addShape\<close> touches the elements.\<close>

lemma saveDesign_elements:
  "elements (fst (snd (saveDesign user thumbnail resp s))) = elements s"
  by (simp add: saveDesign_def split: option.splits fetch_outcome.splits)

lemma addToCart_elements:
  "elements (fst (addToCartWithDesign J user thumbnail resp cart_ok s)) = elements s"
  by (simp add: addToCartWithDesign_def saveDesign_def
      split: option.splits fetch_outcome.splits)

text \<open>
  One action appends the identifiers of the elements it creates, each the decimal
  string of the action's clock reading.
\<close>

lemma step_ids:
  "\<exists>ys. map e_id (elements (fst (step J user a s))) =
          map e_id (elements s) @ map toString ys \<and>
        set ys \<subseteq> set (stamps [a]) \<and> distinct ys"
proof (cases a)
  case (AddText now)
  show ?thesis
  proof (cases "trim (textInput s) = []")
    case True
    with AddText
    have "map e_id (elements (fst (step J user a s))) =
            map e_id (elements s) @ map toString []"
      by (simp add: addText_def)
    then show ?thesis by (intro exI [of _ "[]"]) simp
  next
    case False
    with AddText
    have "map e_id (elements (fst (step J user a s))) =
            map e_id (elements s) @ map toString [now]"
      by (simp add: addText_def)
    with AddText show ?thesis by (intro exI [of _ "[now]"]) simp
  qed
next
  case (AddShape shape now)
  then have "map e_id (elements (fst (step J user a s))) =
               map e_id (elements s) @ map toString [now]"
    by (simp add: addShape_def)
  with AddShape show ?thesis by (intro exI [of _ "[now]"]) simp
next
  case (ChooseProduct v)
  then have "map e_id (elements (fst (step J user a s))) =
               map e_id (elements s) @ map toString []"
    by (simp add: productSelect_onValueChange_def split: option.splits)
  then show ?thesis by (intro exI [of _ "[]"]) simp
next
  case (SaveDesign thumbnail resp)
  then have "map e_id (elements (fst (step J user a s))) =
               map e_id (elements s) @ map toString []"
    by (simp add: saveDesign_elements)
  then show ?thesis by (intro exI [of _ "[]"]) simp
next
  case (AddToCart thumbnail resp cart_ok)
  then have "map e_id (elements (fst (step J user a s))) =
               map e_id (elements s) @ map toString []"
    by (simp add: addToCart_elements)
  then show ?thesis by (intro exI [of _ "[]"]) simp
qed (auto simp add: chooseColor_def chooseSize_def setSelectedColor_def setSelectedSize_def
       setTextInput_def decreaseQuantity_def increaseQuantity_def)

lemma stamps_Cons: "stamps (a # as) = stamps [a] @ stamps as"
  by (cases a) simp_all

lemma run_ids:
  "distinct (stamps as) \<Longrightarrow>
   \<exists>ys. map e_id (elements (fst (run J user as s))) =
          map e_id (elements s) @ map toString ys \<and>
        set ys \<subseteq> set (stamps as) \<and> distinct ys"
proof (induction as arbitrary: s)
  case Nil
  show ?case by (intro exI [of _ "[]"]) simp
next
  case (Cons a as)
  from Cons.prems have d: "distinct (stamps [a] @ stamps as)"
    by (simp add: stamps_Cons [of a as])
  then have das: "distinct (stamps as)" by simp
  obtain zs where zs:
    "map e_id (elements (fst (step J user a s))) = map e_id (elements s) @ map toString zs"
    "set zs \<subseteq> set (stamps [a])" "distinct zs"
    using step_ids [of J user a s] by blast
  obtain ys where ys:
    "map e_id (elements (fst (run J user as (fst (step J user a s))))) =
       map e_id (elements (fst (step J user a s))) @ map toString ys"
    "set ys \<subseteq> set (stamps as)" "distinct ys"
    using Cons.IH [OF das, of "fst (step J user a s)"] by blast
  have "map e_id (elements (fst (run J user (a # as) s))) =
          map e_id (elements s) @ map toString (zs @ ys)"
    by (simp add: run_Cons_fst zs(1) ys(1) del: run.simps)
  moreover have "set (zs @ ys) \<subseteq> set (stamps (a # as))"
    using zs(2) ys(2) by (subst stamps_Cons) auto
  moreover have "distinct (zs @ ys)"
    using zs(2,3) ys(2,3) d by auto
  ultimately show ?case by blast
qed

text \<open>
  C9, as the code has it. In a session that starts with no element, whatever the user
  does, the identifiers of the elements are pairwise distinct provided the clock
  readings of the actions that create elements are pairwise distinct; every identifier
  is the decimal string of such a reading.
\<close>

theorem element_ids_distinct_when_clock_advances:
  "distinct (stamps as) \<Longrightarrow> elements s = [] \<Longrightarrow>
     distinct (map e_id (elements (fst (run J user as s)))) \<and>
     set (map e_id (elements (fst (run J user as s)))) \<subseteq> toString ` set (stamps as)"
proof -
  assume d: "distinct (stamps as)" and e: "elements s = []"
  obtain ys where ys:
    "map e_id (elements (fst (run J user as s))) = map e_id (elements s) @ map toString ys"
    "set ys \<subseteq> set (stamps as)" "distinct ys"
    using run_ids [OF d, of J user s] by blast
  have "inj_on toString (set ys)" by (rule inj_onI) (rule toString_inj)
  with ys e show ?thesis by (auto simp add: distinct_map)
qed

text \<open>A text at reading 1000 and a circle at reading 1001.\<close>

theorem element_ids_distinct_when_clock_advances_witness:
  "map e_id (elements (fst (run numbers_ex (Some ''alice'')
      [TypeText hi, AddText 1000, AddShape circle 1001] studio))) = [''1000'', ''1001''] \<and>
   distinct (map e_id (elements (fst (run numbers_ex (Some ''alice'')
      [TypeText hi, AddText 1000, AddShape circle 1001] studio))))"
proof -
  have d: "distinct (stamps [TypeText hi, AddText 1000, AddShape circle 1001])" by simp
  have e: "elements studio = []" by (simp add: studio_simp initialState_def)
  have v: "map e_id (elements (fst (run numbers_ex (Some ''alice'')
      [TypeText hi, AddText 1000, AddShape circle 1001] studio))) = [''1000'', ''1001'']"
    by (simp add: studio_simp initialState_def setTextInput_def addText_def addShape_def
        trim_def isWhiteSpace_def hi_def toString.simps digit_def)
  from element_ids_distinct_when_clock_advances
         [OF d e, of numbers_ex "Some ''alice''"] v
  show ?thesis by blast
qed

text \<open>
  C9 as stated fails: a rectangle and a circle added at the same clock reading get the
  same identifier.
\<close>

theorem same_millisecond_counterexample:
  "map e_id (elements (addShape circle 1000 (addShape rectangle 1000 studio))) =
     [''1000'', ''1000''] \<and>
   \<not> distinct (map e_id (elements (addShape circle 1000 (addShape rectangle 1000 studio))))"
  by (simp add: addShape_def studio_simp initialState_def toString.simps digit_def)

end
